theory Spec2Isabelle
  imports Complex_Main
begin

section \<open>Data model (shared/schema.ts)\<close>

text \<open>
  The tables of the relational store, one record per row type, with the columns the
  transaction logic reads or writes. A \<open>decimal\<close> column and a JavaScript number
  are modelled as exact rationals (no binary rounding in the handlers' arithmetic); the
  store rounds what is written to a \<open>decimal\<close> column to the column's scale.
  Timestamps are left out. Text columns stay strings: \<open>type\<close> is a \<open>text\<close> column, not
  an enumeration.
\<close>

record product =
  productId :: string
  name :: string
  price :: rat
  stock :: int
  category :: string
  lowStockThreshold :: int

record customer =
  customerId :: string
  category :: string

record discountRule =
  type :: string
  threshold :: int
  percent :: rat
  categoryTarget :: "string option"
  isActive :: bool

text \<open>
  The request body of \<open>POST /api/transactions\<close> as parsed JSON (an absent key is
  \<open>None\<close>), and \<open>InsertTransaction\<close>, what \<open>insertTransactionSchema.parse\<close> returns: the
  insert schema of the table without \<open>id\<close>, \<open>createdAt\<close>, \<open>unitPrice\<close> and \<open>totalAmount\<close>.
\<close>

record transaction_body =
  body_transactionId :: "string option"
  body_productId :: "string option"
  body_quantity :: "int option"
  body_type :: "string option"
  body_customerId :: "string option"
  body_supplierId :: "string option"
  body_discountRate :: "rat option"

record insertTransaction =
  transactionId :: string
  productId :: string
  quantity :: int
  type :: string
  customerId :: "string option"
  supplierId :: "string option"
  discountRate :: "rat option"

text \<open>
  The body of \<open>PUT /api/transactions/:id\<close>: it is not validated, and every key it holds
  is written to the row (the keys \<open>unitPrice\<close> and \<open>totalAmount\<close> are overwritten).
  The record has the keys of the insert schema, each absent (\<open>None\<close>) or holding a value
  of the column's type; a body that sets \<open>id\<close> or \<open>createdAt\<close>, or holds \<open>null\<close>, is
  outside the model.
\<close>

record updateData =
  upd_transactionId :: "string option"
  upd_productId :: "string option"
  upd_quantity :: "int option"
  upd_type :: "string option"
  upd_customerId :: "string option"
  upd_supplierId :: "string option"
  upd_discountRate :: "rat option"

text \<open>A row of \<open>transactions\<close>; \<open>row_id\<close> is the serial primary key \<open>id\<close>.\<close>

record transaction =
  row_id :: nat
  transactionId :: string
  productId :: string
  quantity :: int
  type :: string
  customerId :: "string option"
  supplierId :: "string option"
  unitPrice :: rat
  discountRate :: rat
  totalAmount :: rat

record db =
  products :: "product list"
  customers :: "customer list"
  suppliers :: "string list"
  discountRules :: "discountRule list"
  transactions :: "transaction list"
  nextId :: nat

section \<open>Discount evaluator (server/routes.ts, calculateDiscount)\<close>

text \<open>The loop over the active rules, with \<open>bestDiscount\<close> as accumulator.\<close>

fun calculateDiscount_loop :: "discountRule list \<Rightarrow> int \<Rightarrow> string \<Rightarrow> rat \<Rightarrow> rat" where
  "calculateDiscount_loop [] qty customerCategory bestDiscount = bestDiscount"
| "calculateDiscount_loop (rule # rules) qty customerCategory bestDiscount =
     calculateDiscount_loop rules qty customerCategory
       (if discountRule.type rule = ''quantity'' \<and> qty \<ge> threshold rule
          then max bestDiscount (percent rule)
        else if discountRule.type rule = ''customer_category''
                \<and> categoryTarget rule = Some customerCategory
          then max bestDiscount (percent rule)
        else bestDiscount)"

definition calculateDiscount :: "db \<Rightarrow> int \<Rightarrow> string \<Rightarrow> rat" where
  "calculateDiscount d qty customerCategory =
     calculateDiscount_loop (filter isActive (discountRules d)) qty customerCategory 0 / 100"

text \<open>
  The matching condition in the specification's words: a quantity rule matches when the
  quantity reaches its threshold, a customer-category rule when its target is the category.
\<close>

definition rule_matches :: "discountRule \<Rightarrow> int \<Rightarrow> string \<Rightarrow> bool" where
  "rule_matches rule qty customerCategory =
     ((discountRule.type rule = ''quantity'' \<and> threshold rule \<le> qty) \<or>
      (discountRule.type rule = ''customer_category''
         \<and> categoryTarget rule = Some customerCategory))"

definition matching_percents :: "db \<Rightarrow> int \<Rightarrow> string \<Rightarrow> rat set" where
  "matching_percents d qty customerCategory =
     percent ` {rule \<in> set (discountRules d). isActive rule
                  \<and> rule_matches rule qty customerCategory}"

text \<open>The rule set of the specification's example.\<close>

definition example_rules :: "discountRule list" where
  "example_rules =
     [\<lparr>discountRule.type = ''quantity'', threshold = 10, percent = 5, categoryTarget = None,
        isActive = True\<rparr>,
      \<lparr>discountRule.type = ''customer_category'', threshold = 0, percent = 15,
        categoryTarget = Some ''vip'', isActive = True\<rparr>]"

definition example_rules_db :: db where
  "example_rules_db =
     \<lparr>products = [], customers = [], suppliers = [], discountRules = example_rules,
      transactions = [], nextId = 1\<rparr>"

section \<open>The store (statements issued through the ORM)\<close>

text \<open>
  A statement either takes effect or throws; a statement that throws changes no table
  (each statement is its own implicit transaction). The constraints are those the schema
  declares: \<open>integer\<close> columns hold 32-bit values, \<open>decimal(p, 2)\<close> columns round to two
  decimals and reject a value whose rounded magnitude reaches \<open>10 ^ (p - 2)\<close>,
  \<open>transaction_id\<close> is unique, and \<open>product_id\<close>, \<open>customer_id\<close>, \<open>supplier_id\<close>
  reference their tables. A \<open>select\<close> destructured as \<open>const [x] = ...\<close> yields the first
  matching row.
\<close>

definition int4 :: "int \<Rightarrow> bool" where
  "int4 n = (- 2147483648 \<le> n \<and> n \<le> 2147483647)"

text \<open>Rounding to scale 2, ties away from zero, and the range of \<open>decimal(p, 2)\<close>.\<close>

definition round2 :: "rat \<Rightarrow> rat" where
  "round2 x =
     (if 0 \<le> x then of_int \<lfloor>x * 100 + 1 / 2\<rfloor> / 100
      else - (of_int \<lfloor>- x * 100 + 1 / 2\<rfloor> / 100))"

definition numeric_fits :: "nat \<Rightarrow> rat \<Rightarrow> bool" where
  "numeric_fits p x = (\<bar>round2 x\<bar> < 10 ^ (p - 2))"

definition select_product :: "db \<Rightarrow> string \<Rightarrow> product option" where
  "select_product d pid = find (\<lambda>p. product.productId p = pid) (products d)"

definition select_customer :: "db \<Rightarrow> string \<Rightarrow> customer option" where
  "select_customer d cid = find (\<lambda>c. customer.customerId c = cid) (customers d)"

definition select_transaction :: "db \<Rightarrow> nat \<Rightarrow> transaction option" where
  "select_transaction d i = find (\<lambda>t. row_id t = i) (transactions d)"

definition references_ok :: "string option \<Rightarrow> string list \<Rightarrow> bool" where
  "references_ok key keys = (case key of None \<Rightarrow> True | Some k \<Rightarrow> k \<in> set keys)"

text \<open>The unique, foreign-key and \<open>integer\<close> constraints on a row of \<open>transactions\<close>,
  against the other rows of the table.\<close>

definition row_accepted :: "db \<Rightarrow> transaction list \<Rightarrow> transaction \<Rightarrow> bool" where
  "row_accepted d others row =
     (transactionId row \<notin> set (map transactionId others) \<and>
      productId row \<in> set (map product.productId (products d)) \<and>
      references_ok (customerId row) (map customer.customerId (customers d)) \<and>
      references_ok (supplierId row) (suppliers d) \<and>
      int4 (quantity row))"

text \<open>
  \<open>db.insert(transactions).values(...).returning()\<close>. The three \<open>decimal\<close> columns
  (\<open>unit_price\<close> and \<open>total_amount\<close> of precision 10, \<open>discount_rate\<close> of precision 5) are
  range-checked and stored rounded; the row returned is the stored one. The serial
  default is evaluated before the constraints are checked, so a rejected insert uses up
  an id as well.
\<close>

definition insert_transaction :: "db \<Rightarrow> transaction \<Rightarrow> transaction option \<times> db" where
  "insert_transaction d vals =
     (let row = vals\<lparr>row_id := nextId d,
                     unitPrice := round2 (unitPrice vals),
                     discountRate := round2 (discountRate vals),
                     totalAmount := round2 (totalAmount vals)\<rparr>;
          d1 = d\<lparr>nextId := Suc (nextId d)\<rparr>
      in if row_accepted d (transactions d) row
            \<and> numeric_fits 10 (unitPrice vals) \<and> numeric_fits 5 (discountRate vals)
            \<and> numeric_fits 10 (totalAmount vals)
         then (Some row, d1\<lparr>transactions := transactions d @ [row]\<rparr>)
         else (None, d1))"

text \<open>\<open>db.update(products).set({stock}).where(eq(products.productId, pid))\<close>.\<close>

definition update_product_stock :: "db \<Rightarrow> string \<Rightarrow> int \<Rightarrow> db option" where
  "update_product_stock d pid newStock =
     (if int4 newStock
      then Some (d\<lparr>products :=
             map (\<lambda>p. if product.productId p = pid then p\<lparr>stock := newStock\<rparr> else p)
               (products d)\<rparr>)
      else None)"

text \<open>
  \<open>db.update(transactions).set({...updateData, unitPrice, totalAmount})
  .where(eq(transactions.id, i)).returning()\<close>. \<open>update_set\<close> is the effect of the \<open>SET\<close>
  clause on one row: every key of \<open>updateData\<close>, then \<open>unitPrice\<close> and \<open>totalAmount\<close>,
  the values assigned to \<open>decimal\<close> columns rounded. \<open>set_fits\<close> is the range check on
  the assigned \<open>decimal\<close> values. The rows with that id are rewritten and returned; the
  remaining constraints are checked on the rewritten rows (on a column the statement
  does not assign they hold already when the stored row satisfied them).
\<close>

definition update_set :: "updateData \<Rightarrow> rat \<Rightarrow> rat \<Rightarrow> transaction \<Rightarrow> transaction" where
  "update_set u up amount row =
     row\<lparr>transactionId := (case upd_transactionId u of None \<Rightarrow> transactionId row | Some v \<Rightarrow> v),
         productId := (case upd_productId u of None \<Rightarrow> productId row | Some v \<Rightarrow> v),
         quantity := (case upd_quantity u of None \<Rightarrow> quantity row | Some v \<Rightarrow> v),
         type := (case upd_type u of None \<Rightarrow> type row | Some v \<Rightarrow> v),
         customerId := (case upd_customerId u of None \<Rightarrow> customerId row | Some v \<Rightarrow> Some v),
         supplierId := (case upd_supplierId u of None \<Rightarrow> supplierId row | Some v \<Rightarrow> Some v),
         discountRate :=
           (case upd_discountRate u of None \<Rightarrow> discountRate row | Some v \<Rightarrow> round2 v),
         unitPrice := round2 up,
         totalAmount := round2 amount\<rparr>"

definition set_fits :: "updateData \<Rightarrow> rat \<Rightarrow> rat \<Rightarrow> bool" where
  "set_fits u up amount =
     (numeric_fits 10 up \<and> numeric_fits 10 amount \<and>
      (case upd_discountRate u of None \<Rightarrow> True | Some v \<Rightarrow> numeric_fits 5 v))"

definition update_transaction ::
    "db \<Rightarrow> nat \<Rightarrow> updateData \<Rightarrow> rat \<Rightarrow> rat \<Rightarrow> (transaction list \<times> db) option" where
  "update_transaction d i u up amount =
     (let others = filter (\<lambda>t. row_id t \<noteq> i) (transactions d);
          returned = map (update_set u up amount)
                       (filter (\<lambda>t. row_id t = i) (transactions d))
      in if list_all (row_accepted d others) returned \<and> distinct (map transactionId returned)
            \<and> set_fits u up amount
         then Some (returned,
                d\<lparr>transactions :=
                    map (\<lambda>t. if row_id t = i then update_set u up amount t else t)
                      (transactions d)\<rparr>)
         else None)"

text \<open>\<open>db.delete(transactions).where(eq(transactions.id, i))\<close>.\<close>

definition delete_transaction_row :: "db \<Rightarrow> nat \<Rightarrow> db" where
  "delete_transaction_row d i =
     d\<lparr>transactions := filter (\<lambda>t. row_id t \<noteq> i) (transactions d)\<rparr>"

section \<open>Primary server (server/routes.ts)\<close>

text \<open>
  A handler maps the store and the request to the HTTP response and the store afterwards.
  \<open>Success s x\<close> is \<open>res.status(s).json({success: true, data: x})\<close>, \<open>Failure s c\<close> is
  \<open>res.status(s).json({error: {message, code: c}})\<close>. An exception thrown inside the
  handler's \<open>try\<close> reaches its \<open>catch\<close>, which answers 400 and undoes nothing.
\<close>

datatype 'a response = Success nat 'a | Failure nat string

text \<open>\<open>insertTransactionSchema.parse(req.body)\<close>: the \<open>notNull\<close> columns without a default
  are required; \<open>None\<close> stands for the thrown \<open>ZodError\<close>.\<close>

definition insertTransactionSchema_parse :: "transaction_body \<Rightarrow> insertTransaction option" where
  "insertTransactionSchema_parse body =
     (case (body_transactionId body, body_productId body, body_quantity body, body_type body) of
        (Some tid, Some pid, Some qty, Some ty) \<Rightarrow>
          Some \<lparr>insertTransaction.transactionId = tid, productId = pid, quantity = qty,
                type = ty, customerId = body_customerId body,
                supplierId = body_supplierId body, discountRate = body_discountRate body\<rparr>
      | _ \<Rightarrow> None)"

text \<open>JavaScript truthiness of an optional string, and \<open>a || b\<close> on numbers and strings.\<close>

definition truthy :: "string option \<Rightarrow> bool" where
  "truthy s = (case s of None \<Rightarrow> False | Some v \<Rightarrow> v \<noteq> [])"

definition or_number :: "int option \<Rightarrow> int \<Rightarrow> int" where
  "or_number a b = (case a of None \<Rightarrow> b | Some v \<Rightarrow> if v = 0 then b else v)"

definition or_string :: "string option \<Rightarrow> string \<Rightarrow> string" where
  "or_string a b = (case a of None \<Rightarrow> b | Some v \<Rightarrow> if v = [] then b else v)"

text \<open>The discount rate of a create: lines 347 to 356 of \<open>POST /api/transactions\<close>.\<close>

definition create_discountRate :: "db \<Rightarrow> insertTransaction \<Rightarrow> rat" where
  "create_discountRate d validatedData =
     (if insertTransaction.type validatedData = ''sale''
          \<and> truthy (insertTransaction.customerId validatedData)
      then (case insertTransaction.customerId validatedData of
              None \<Rightarrow> 0
            | Some cid \<Rightarrow>
                (case select_customer d cid of
                   None \<Rightarrow> 0
                 | Some c \<Rightarrow>
                     calculateDiscount d (insertTransaction.quantity validatedData)
                       (customer.category c)))
      else 0)"

text \<open>The row handed to the insert: the validated data, then the three computed columns.\<close>

definition create_values :: "insertTransaction \<Rightarrow> rat \<Rightarrow> rat \<Rightarrow> rat \<Rightarrow> transaction" where
  "create_values validatedData up rate amount =
     \<lparr>row_id = 0,
      transactionId = insertTransaction.transactionId validatedData,
      productId = insertTransaction.productId validatedData,
      quantity = insertTransaction.quantity validatedData,
      type = insertTransaction.type validatedData,
      customerId = insertTransaction.customerId validatedData,
      supplierId = insertTransaction.supplierId validatedData,
      unitPrice = up,
      discountRate = rate * 100,
      totalAmount = amount\<rparr>"

definition post_transaction :: "db \<Rightarrow> transaction_body \<Rightarrow> transaction response \<times> db" where
  "post_transaction d body =
     (case insertTransactionSchema_parse body of
        None \<Rightarrow> (Failure 400 ''TRANSACTION_CREATION_ERROR'', d)
      | Some validatedData \<Rightarrow>
          (case select_product d (insertTransaction.productId validatedData) of
             None \<Rightarrow> (Failure 404 ''PRODUCT_NOT_FOUND'', d)
           | Some product \<Rightarrow>
               (let unitPrice = price product;
                    discountRate = create_discountRate d validatedData;
                    baseAmount = unitPrice * of_int (insertTransaction.quantity validatedData);
                    discountAmount = baseAmount * discountRate;
                    totalAmount = baseAmount - discountAmount
                in if insertTransaction.type validatedData = ''sale''
                      \<and> stock product < insertTransaction.quantity validatedData
                   then (Failure 400 ''INSUFFICIENT_STOCK'', d)
                   else
                     (case insert_transaction d
                             (create_values validatedData unitPrice discountRate totalAmount) of
                        (None, d1) \<Rightarrow> (Failure 400 ''TRANSACTION_CREATION_ERROR'', d1)
                      | (Some newTransaction, d1) \<Rightarrow>
                          (let stockChange =
                                 (if insertTransaction.type validatedData = ''purchase''
                                  then insertTransaction.quantity validatedData
                                  else - insertTransaction.quantity validatedData);
                               newStock = stock product + stockChange
                           in (case update_product_stock d1
                                     (insertTransaction.productId validatedData) newStock of
                                 None \<Rightarrow> (Failure 400 ''TRANSACTION_CREATION_ERROR'', d1)
                               | Some d2 \<Rightarrow> (Success 201 newTransaction, d2)))))))"

definition put_transaction ::
    "db \<Rightarrow> nat \<Rightarrow> updateData \<Rightarrow> transaction option response \<times> db" where
  "put_transaction d i u =
     (case select_transaction d i of
        None \<Rightarrow> (Failure 404 ''TRANSACTION_NOT_FOUND'', d)
      | Some currentTransaction \<Rightarrow>
          (case select_product d (productId currentTransaction) of
             None \<Rightarrow> (Failure 404 ''PRODUCT_NOT_FOUND'', d)
           | Some product \<Rightarrow>
               (let oldStockChange =
                      (if type currentTransaction = ''purchase''
                       then - quantity currentTransaction else quantity currentTransaction);
                    reversedStock = stock product + oldStockChange;
                    newQuantity = or_number (upd_quantity u) (quantity currentTransaction);
                    newType = or_string (upd_type u) (type currentTransaction);
                    newStockChange = (if newType = ''purchase'' then newQuantity else - newQuantity);
                    finalStock = reversedStock + newStockChange
                in if finalStock < 0 then (Failure 400 ''INSUFFICIENT_STOCK'', d)
                   else
                     (let unitPrice = price product;
                          totalAmount = unitPrice * of_int newQuantity
                      in (case update_transaction d i u unitPrice totalAmount of
                            None \<Rightarrow> (Failure 400 ''TRANSACTION_UPDATE_ERROR'', d)
                          | Some (returned, d1) \<Rightarrow>
                              (case update_product_stock d1 (productId currentTransaction)
                                      finalStock of
                                 None \<Rightarrow> (Failure 400 ''TRANSACTION_UPDATE_ERROR'', d1)
                               | Some d2 \<Rightarrow>
                                   (Success 200
                                      (case returned of [] \<Rightarrow> None | r # _ \<Rightarrow> Some r),
                                    d2)))))))"

definition delete_transaction :: "db \<Rightarrow> nat \<Rightarrow> unit response \<times> db" where
  "delete_transaction d i =
     (case select_transaction d i of
        None \<Rightarrow> (Failure 404 ''TRANSACTION_NOT_FOUND'', d)
      | Some currentTransaction \<Rightarrow>
          (case select_product d (productId currentTransaction) of
             None \<Rightarrow> (Failure 404 ''PRODUCT_NOT_FOUND'', d)
           | Some product \<Rightarrow>
               (let stockChange =
                      (if type currentTransaction = ''purchase''
                       then - quantity currentTransaction else quantity currentTransaction);
                    newStock = stock product + stockChange
                in if newStock < 0 then (Failure 400 ''INSUFFICIENT_STOCK'', d)
                   else
                     (let d1 = delete_transaction_row d i
                      in (case update_product_stock d1 (productId currentTransaction) newStock of
                            None \<Rightarrow> (Failure 400 ''TRANSACTION_DELETE_ERROR'', d1)
                          | Some d2 \<Rightarrow> (Success 200 (), d2))))))"

section \<open>Legacy implementation (backend/AppError.js, backend/InventoryManager.js)\<close>

text \<open>
  The class \<open>AppError\<close> with the fields its constructor sets, and its four factories,
  called with a message and their default code.
\<close>

record AppError =
  message :: string
  statusCode :: nat
  code :: string

definition validation :: "string \<Rightarrow> AppError" where
  "validation msg = \<lparr>message = msg, statusCode = 400, code = ''VALIDATION_ERROR''\<rparr>"

definition notFound :: "string \<Rightarrow> AppError" where
  "notFound msg = \<lparr>message = msg, statusCode = 404, code = ''NOT_FOUND''\<rparr>"

definition conflict :: "string \<Rightarrow> AppError" where
  "conflict msg = \<lparr>message = msg, statusCode = 409, code = ''CONFLICT''\<rparr>"

definition internal :: "string \<Rightarrow> AppError" where
  "internal msg = \<lparr>message = msg, statusCode = 500, code = ''INTERNAL_ERROR''\<rparr>"

text \<open>What a JavaScript \<open>throw\<close> carries: an \<open>AppError\<close>, or any other \<open>Error\<close> with its
  message.\<close>

datatype thrown = AppErr AppError | OtherError string

text \<open>The payload of the \<open>lowStock\<close> event (its timestamp left out).\<close>

record lowStockEvent =
  event_productId :: string
  event_name :: string
  currentStock :: int
  event_threshold :: int

text \<open>
  A listener registered with \<open>on('lowStock', ...)\<close> returns (\<open>None\<close>) or throws. Node's
  \<open>EventEmitter.emit\<close> calls the listeners synchronously in registration order inside the
  caller's stack: the first exception a listener throws leaves \<open>emit\<close>.
\<close>

type_synonym listener = "lowStockEvent \<Rightarrow> thrown option"

fun emit :: "listener list \<Rightarrow> lowStockEvent \<Rightarrow> thrown option" where
  "emit [] event = None"
| "emit (l # ls) event = (case l event of Some e \<Rightarrow> Some e | None \<Rightarrow> emit ls event)"

text \<open>The handler registered by \<open>initializeDatabase\<close> in \<open>backend/server.js\<close>: it logs.\<close>

definition console_listener :: listener where
  "console_listener event = None"

text \<open>\<open>catch (error) { if (error instanceof AppError) throw error;
  throw AppError.internal(prefix + error.message) }\<close>\<close>

definition rethrow :: "string \<Rightarrow> thrown \<Rightarrow> thrown" where
  "rethrow prefix e =
     (case e of AppErr a \<Rightarrow> AppErr a | OtherError m \<Rightarrow> AppErr (internal (prefix @ m)))"

text \<open>The error of the database driver when the store rejects a statement.\<close>

definition store_error :: thrown where
  "store_error = OtherError ''statement rejected by the store''"

text \<open>The double quote, for the messages that hold one.\<close>

definition dq :: string where
  "dq = [CHR 0x22]"

definition updateStock ::
    "listener list \<Rightarrow> db \<Rightarrow> string \<Rightarrow> int \<Rightarrow> string \<Rightarrow> (thrown + product option) \<times> db" where
  "updateStock listeners d pid qty transactionType =
     (if pid = [] \<or> transactionType = []
      then (Inl (AppErr (validation
                   ''Product ID, quantity, and transaction type are required'')), d)
      else if transactionType \<noteq> ''purchase'' \<and> transactionType \<noteq> ''sale''
      then (Inl (AppErr (validation
                   (''Transaction type must be '' @ dq @ ''purchase'' @ dq @ '' or ''
                      @ dq @ ''sale'' @ dq))), d)
      else if qty \<le> 0
      then (Inl (AppErr (validation ''Quantity must be positive'')), d)
      else
        (case select_product d pid of
           None \<Rightarrow> (Inl (AppErr (notFound (''Product '' @ pid @ '' not found''))), d)
         | Some product \<Rightarrow>
             (let newStock = (if transactionType = ''purchase''
                              then stock product + qty else stock product - qty)
              in if transactionType \<noteq> ''purchase'' \<and> newStock < 0
                 then (Inl (AppErr (validation ''Insufficient stock for sale transaction'')), d)
                 else
                   (case update_product_stock d pid newStock of
                      None \<Rightarrow> (Inl (rethrow ''Failed to update stock: '' store_error), d)
                    | Some d1 \<Rightarrow>
                        (case (if newStock \<le> lowStockThreshold product
                               then emit listeners
                                      \<lparr>event_productId = pid, event_name = name product,
                                       currentStock = newStock,
                                       event_threshold = lowStockThreshold product\<rparr>
                               else None) of
                           Some e \<Rightarrow> (Inl (rethrow ''Failed to update stock: '' e), d1)
                         | None \<Rightarrow> (Inr (select_product d1 pid), d1))))))"

text \<open>The row of the legacy \<open>INSERT\<close>: \<open>discount_rate\<close> and \<open>supplier_id\<close> take their
  defaults.\<close>

definition legacy_values ::
    "string \<Rightarrow> string \<Rightarrow> int \<Rightarrow> string \<Rightarrow> string option \<Rightarrow> rat \<Rightarrow> rat \<Rightarrow> transaction" where
  "legacy_values tid pid qty ty cid up amount =
     \<lparr>row_id = 0, transactionId = tid, productId = pid, quantity = qty, type = ty,
      customerId = cid, supplierId = None, unitPrice = up, discountRate = 0,
      totalAmount = amount\<rparr>"

text \<open>
  \<open>createTransaction\<close>: an absent argument (\<open>undefined\<close>, or \<open>NaN\<close> from \<open>parseInt\<close>) is
  \<open>None\<close>. \<open>BEGIN\<close> is issued right before the insert; \<open>ROLLBACK\<close> puts the tables back
  as they were at \<open>BEGIN\<close> (the serial counter is not rolled back), \<open>COMMIT\<close> keeps both
  writes.
\<close>

definition createTransaction ::
    "listener list \<Rightarrow> db \<Rightarrow> string option \<Rightarrow> string option \<Rightarrow> int option \<Rightarrow> string option
       \<Rightarrow> string option \<Rightarrow> (thrown + transaction) \<times> db" where
  "createTransaction listeners d tid_arg pid_arg qty_arg type_arg cid_arg =
     (case (tid_arg, pid_arg, qty_arg, type_arg) of
        (Some tid, Some pid, Some qty, Some ty) \<Rightarrow>
          if tid = [] \<or> pid = [] \<or> qty = 0 \<or> ty = []
          then (Inl (AppErr (validation
                       ''Transaction ID, product ID, quantity, and type are required'')), d)
          else if ty \<noteq> ''purchase'' \<and> ty \<noteq> ''sale''
          then (Inl (AppErr (validation
                       (''Type must be '' @ dq @ ''purchase'' @ dq @ '' or ''
                          @ dq @ ''sale'' @ dq))), d)
          else if qty \<le> 0
          then (Inl (AppErr (validation ''Quantity must be positive'')), d)
          else if tid \<in> set (map transactionId (transactions d))
          then (Inl (AppErr (conflict
                       (''Transaction with ID '' @ tid @ '' already exists''))), d)
          else
            (case select_product d pid of
               None \<Rightarrow> (Inl (AppErr (notFound (''Product '' @ pid @ '' not found''))), d)
             | Some product \<Rightarrow>
                 (let unitPrice = price product;
                      totalAmount = unitPrice * of_int qty
                  in (case insert_transaction d
                            (legacy_values tid pid qty ty cid_arg unitPrice totalAmount) of
                        (None, d1) \<Rightarrow>
                          (Inl (rethrow ''Failed to create transaction: '' store_error),
                           d\<lparr>nextId := nextId d1\<rparr>)
                      | (Some row, d1) \<Rightarrow>
                          (case updateStock listeners d1 pid qty ty of
                             (Inl e, d2) \<Rightarrow>
                               (Inl (rethrow ''Failed to create transaction: '' e),
                                d\<lparr>nextId := nextId d2\<rparr>)
                           | (Inr updated, d2) \<Rightarrow> (Inr row, d2)))))
      | _ \<Rightarrow>
          (Inl (AppErr (validation
                  ''Transaction ID, product ID, quantity, and type are required'')), d))"

section \<open>Example data\<close>

text \<open>A store with one product, one VIP customer and the example's discount rules.\<close>

definition widget :: "int \<Rightarrow> product" where
  "widget initialStock =
     \<lparr>product.productId = ''PROD-001'', name = ''Widget'', price = 100,
      stock = initialStock, product.category = ''tools'', lowStockThreshold = 5\<rparr>"

definition shop_db :: "int \<Rightarrow> db" where
  "shop_db initialStock =
     \<lparr>products = [widget initialStock],
      customers = [\<lparr>customer.customerId = ''CUST-001'', category = ''vip''\<rparr>],
      suppliers = [''SUP-001''],
      discountRules = example_rules,
      transactions = [],
      nextId = 1\<rparr>"

definition request_body ::
    "string \<Rightarrow> int \<Rightarrow> string \<Rightarrow> string option \<Rightarrow> transaction_body" where
  "request_body tid qty ty cid =
     \<lparr>body_transactionId = Some tid, body_productId = Some ''PROD-001'',
      body_quantity = Some qty, body_type = Some ty, body_customerId = cid,
      body_supplierId = None, body_discountRate = None\<rparr>"

text \<open>A sale of 6 to the VIP customer, the row it creates in \<open>shop_db 10\<close> (15 percent
  off 600), the store after it, and an update of that row's quantity.\<close>

definition sale_body :: transaction_body where
  "sale_body = request_body ''TXN-001'' 6 ''sale'' (Some ''CUST-001'')"

definition sale_data :: insertTransaction where
  "sale_data =
     \<lparr>insertTransaction.transactionId = ''TXN-001'', productId = ''PROD-001'',
      quantity = 6, type = ''sale'', customerId = Some ''CUST-001'',
      supplierId = None, discountRate = None\<rparr>"

definition sale_row :: transaction where
  "sale_row =
     \<lparr>row_id = 1, transactionId = ''TXN-001'', productId = ''PROD-001'', quantity = 6,
      type = ''sale'', customerId = Some ''CUST-001'', supplierId = None,
      unitPrice = 100, discountRate = 15, totalAmount = 510\<rparr>"

definition sold_db :: db where
  "sold_db = (shop_db 4)\<lparr>transactions := [sale_row], nextId := 2\<rparr>"

definition change_quantity :: "int \<Rightarrow> updateData" where
  "change_quantity qty =
     \<lparr>upd_transactionId = None, upd_productId = None, upd_quantity = Some qty,
      upd_type = None, upd_customerId = None, upd_supplierId = None,
      upd_discountRate = None\<rparr>"

text \<open>A store whose product is at the largest value of the \<open>integer\<close> column and holds
  the sale's row, a second request that reuses an existing transaction id, and a
  \<open>lowStock\<close> listener that throws.\<close>

definition full_db :: db where
  "full_db = (shop_db 2147483647)\<lparr>transactions := [sale_row], nextId := 2\<rparr>"

definition duplicate_body :: transaction_body where
  "duplicate_body = request_body ''TXN-001'' 1 ''purchase'' None"

definition throwing_listener :: listener where
  "throwing_listener event = Some (OtherError ''notification failed'')"

text \<open>A store whose product costs 19.99, and a sale of one piece to the VIP customer:
  15 percent off 19.99 is 16.9915.\<close>

definition cable :: product where
  "cable =
     \<lparr>product.productId = ''PROD-002'', name = ''Cable'', price = 1999 / 100,
      stock = 10, product.category = ''tools'', lowStockThreshold = 5\<rparr>"

definition cable_db :: db where
  "cable_db = (shop_db 10)\<lparr>products := [cable]\<rparr>"

definition cable_body :: transaction_body where
  "cable_body =
     \<lparr>body_transactionId = Some ''TXN-006'', body_productId = Some ''PROD-002'',
      body_quantity = Some 1, body_type = Some ''sale'',
      body_customerId = Some ''CUST-001'', body_supplierId = None,
      body_discountRate = None\<rparr>"

definition cable_row :: transaction where
  "cable_row =
     \<lparr>row_id = 1, transactionId = ''TXN-006'', productId = ''PROD-002'', quantity = 1,
      type = ''sale'', customerId = Some ''CUST-001'', supplierId = None,
      unitPrice = 1999 / 100, discountRate = 15, totalAmount = 1699 / 100\<rparr>"

text \<open>The unique constraints of the schema, as an invariant of the store: product ids are
  distinct, and every row id was handed out by the serial counter.\<close>

definition store_invariant :: "db \<Rightarrow> bool" where
  "store_invariant d =
     (distinct (map product.productId (products d)) \<and>
      list_all (\<lambda>t. row_id t < nextId d) (transactions d))"



section \<open>Properties of the discount evaluator\<close>

lemma Max_insert_max:
  fixes a b :: rat
  shows "finite S \<Longrightarrow> Max (insert (max a b) S) = Max (insert a (insert b S))"
  by (cases "S = {}") (simp_all add: max.assoc)

lemma calculateDiscount_loop_Max:
  "calculateDiscount_loop rules q c best =
     Max (insert best (percent ` {rule \<in> set rules. rule_matches rule q c}))"
proof (induction rules arbitrary: best)
  case Nil
  show ?case by simp
next
  case (Cons rule rules)
  let ?S = "percent ` {r \<in> set rules. rule_matches r q c}"
  have fin: "finite ?S" by simp
  show ?case
  proof (cases "rule_matches rule q c")
    case True
    then have step: "calculateDiscount_loop (rule # rules) q c best =
        calculateDiscount_loop rules q c (max best (percent rule))"
      by (auto simp: rule_matches_def)
    have set_eq: "percent ` {r \<in> set (rule # rules). rule_matches r q c} =
        insert (percent rule) ?S"
      using True by auto
    have "Max (insert (max best (percent rule)) ?S) =
        Max (insert best (insert (percent rule) ?S))"
      using fin by (rule Max_insert_max)
    then show ?thesis
      unfolding step Cons.IH set_eq by simp
  next
    case False
    then have step: "calculateDiscount_loop (rule # rules) q c best =
        calculateDiscount_loop rules q c best"
      by (auto simp: rule_matches_def)
    have set_eq: "percent ` {r \<in> set (rule # rules). rule_matches r q c} = ?S"
      using False by auto
    show ?thesis
      unfolding step Cons.IH set_eq by simp
  qed
qed

lemma active_filter_set:
  "{rule \<in> set (filter isActive rules). rule_matches rule q c} =
     {rule \<in> set rules. isActive rule \<and> rule_matches rule q c}"
  by auto

text \<open>
  Claim C4, as the code has it. For every store, quantity and customer category,
  \<open>calculateDiscount\<close> is a function of its arguments and the active rules, and returns
  the largest percent among the active matching rules and 0 (so 0 when no rule matches,
  when there is no rule, or when every matching percent is negative), divided by 100: a
  fraction, not a percentage. With the rules of the specification's example,
  \<open>calculateDiscount 12 "vip"\<close> is 15/100.
\<close>

theorem calculateDiscount_is_max_fraction:
  "calculateDiscount d qty cat = Max (insert 0 (matching_percents d qty cat)) / 100
   \<and> calculateDiscount example_rules_db 12 ''vip'' = 15 / 100"
proof
  show "calculateDiscount d qty cat = Max (insert 0 (matching_percents d qty cat)) / 100"
    unfolding calculateDiscount_def matching_percents_def calculateDiscount_loop_Max
      active_filter_set ..
  show "calculateDiscount example_rules_db 12 ''vip'' = 15 / 100"
    by (simp add: calculateDiscount_def example_rules_db_def example_rules_def)
qed

text \<open>Claim C4 as stated fails on its own example: the evaluator does not return 15.\<close>

theorem calculateDiscount_example_counterexample:
  "calculateDiscount example_rules_db 12 ''vip'' \<noteq> 15"
  by (simp add: calculateDiscount_def example_rules_db_def example_rules_def)

section \<open>Rounding to the column scale\<close>

lemma floor_rat_numeral:
  "\<lfloor>(numeral a :: rat) / numeral b\<rfloor> = numeral a div numeral b"
  "\<lfloor>(1 :: rat) / numeral b\<rfloor> = 1 div numeral b"
  using floor_divide_of_int_eq[of "numeral a" "numeral b", where ?'a = rat]
    floor_divide_of_int_eq[of 1 "numeral b", where ?'a = rat]
  by simp_all






section \<open>Evaluation on the example data\<close>

lemmas example_defs = shop_db_def widget_def sale_row_def sold_db_def full_db_def
  request_body_def change_quantity_def example_rules_def sale_body_def sale_data_def
  duplicate_body_def cable_def cable_db_def cable_body_def cable_row_def
lemmas store_defs = select_transaction_def select_product_def select_customer_def
  insert_transaction_def update_transaction_def update_product_stock_def
  delete_transaction_row_def row_accepted_def references_ok_def int4_def
  numeric_fits_def round2_def floor_rat_numeral update_set_def set_fits_def
lemmas handler_defs = post_transaction_def put_transaction_def delete_transaction_def
  insertTransactionSchema_parse_def create_discountRate_def create_values_def
  calculateDiscount_def truthy_def or_number_def or_string_def Let_def
lemmas legacy_defs = updateStock_def createTransaction_def legacy_values_def rethrow_def
  store_error_def validation_def notFound_def conflict_def internal_def
  console_listener_def throwing_listener_def


lemma find_Some_mem: "find P xs = Some x \<Longrightarrow> x \<in> set xs \<and> P x"
  by (induction xs) (auto split: if_splits)

section \<open>Properties of the primary server's create\<close>

text \<open>What a successful create did, read off the handler.\<close>

lemma post_transaction_success:
  assumes "post_transaction d body = (Success s row, d')"
  obtains v and p :: product where
    "insertTransactionSchema_parse body = Some v"
    "select_product d (insertTransaction.productId v) = Some p"
    "\<not> (insertTransaction.type v = ''sale'' \<and> stock p < insertTransaction.quantity v)"
    "row_id row = nextId d"
    "productId row = insertTransaction.productId v"
    "quantity row = insertTransaction.quantity v"
    "type row = insertTransaction.type v"
    "unitPrice row = round2 (price p)"
    "discountRate row = round2 (create_discountRate d v * 100)"
    "totalAmount row = round2 (price p * of_int (insertTransaction.quantity v)
        - price p * of_int (insertTransaction.quantity v) * create_discountRate d v)"
    "d' = d\<lparr>nextId := Suc (nextId d), transactions := transactions d @ [row],
             products := map (\<lambda>q. if product.productId q = insertTransaction.productId v
                 then q\<lparr>stock := stock p + (if insertTransaction.type v = ''purchase''
                      then insertTransaction.quantity v else - insertTransaction.quantity v)\<rparr>
                 else q) (products d)\<rparr>"
    "s = 201"
  using assms
  unfolding post_transaction_def insert_transaction_def update_product_stock_def Let_def
    create_values_def
  by (auto split: option.splits if_splits)

lemma sale_body_parse: "insertTransactionSchema_parse sale_body = Some sale_data"
  by (simp add: sale_body_def request_body_def insertTransactionSchema_parse_def sale_data_def)

lemma post_sale: "post_transaction (shop_db 10) sale_body = (Success 201 sale_row, sold_db)"
  by (simp add: handler_defs example_defs store_defs)


lemma insert_transaction_tables:
  "products (snd (insert_transaction d vals)) = products d"
  "fst (insert_transaction d vals) = None \<Longrightarrow>
     transactions (snd (insert_transaction d vals)) = transactions d"
  by (auto simp: insert_transaction_def Let_def split: if_splits)

lemma updateStock_insufficient:
  assumes "pid \<noteq> []" and "0 < qty" and "select_product d pid = Some p"
      and "stock p < qty"
  shows "updateStock ls d pid qty ''sale''
           = (Inl (AppErr (validation ''Insufficient stock for sale transaction'')), d)"
  using assms by (simp add: updateStock_def Let_def)

lemma createTransaction_insufficient:
  assumes "tid \<noteq> []" and "pid \<noteq> []" and "0 < qty"
      and "tid \<notin> set (map transactionId (transactions d))"
      and "select_product d pid = Some p" and "stock p < qty"
  shows "createTransaction ls d (Some tid) (Some pid) (Some qty) (Some ''sale'') cid
           = (Inl (AppErr
                (if fst (insert_transaction d
                          (legacy_values tid pid qty ''sale'' cid (price p)
                             (price p * of_int qty))) = None
                 then internal (''Failed to create transaction: ''
                                  @ ''statement rejected by the store'')
                 else validation ''Insufficient stock for sale transaction'')),
              d\<lparr>nextId := Suc (nextId d)\<rparr>)"
proof (cases "insert_transaction d
                (legacy_values tid pid qty ''sale'' cid (price p) (price p * of_int qty))")
  case (Pair res d1)
  then have n1: "nextId d1 = Suc (nextId d)"
    by (auto simp: insert_transaction_def Let_def split: if_splits)
  show ?thesis
  proof (cases res)
    case None
    with Pair assms n1 show ?thesis
      by (simp add: createTransaction_def Let_def rethrow_def store_error_def)
  next
    case (Some row)
    from Pair have "products d1 = products d"
      using insert_transaction_tables(1)[of d] by (metis snd_conv)
    with assms(5) have "select_product d1 pid = Some p" by (simp add: select_product_def)
    from updateStock_insufficient[OF assms(2,3) this assms(6)]
    have "updateStock ls d1 pid qty ''sale''
           = (Inl (AppErr (validation ''Insufficient stock for sale transaction'')), d1)" .
    with Pair Some assms n1 show ?thesis
      by (simp add: createTransaction_def Let_def rethrow_def)
  qed
qed

text \<open>
  Claim C5, as the code has it. A sale-create request whose quantity exceeds the
  product's stock fails in both implementations and leaves the product table and the
  transaction table as they were. The primary server answers 400 \<open>INSUFFICIENT_STOCK\<close>
  before any write. The legacy implementation has no such error: \<open>updateStock\<close> throws
  \<open>AppError.validation\<close> (400, \<open>VALIDATION_ERROR\<close>) before it writes the stock, and
  \<open>createTransaction\<close>, called with a new transaction id, has by then inserted the row,
  which \<open>ROLLBACK\<close> removes; when the store rejects that insert, the error is the
  Internal one of the failed insert.
\<close>

theorem sale_exceeding_stock_rejected:
  "(insertTransactionSchema_parse body = Some v \<and> insertTransaction.type v = ''sale''
      \<and> select_product d (insertTransaction.productId v) = Some p
      \<and> stock p < insertTransaction.quantity v
    \<longrightarrow> post_transaction d body = (Failure 400 ''INSUFFICIENT_STOCK'', d))
   \<and> (pid \<noteq> [] \<and> 0 < qty \<and> select_product d pid = Some p' \<and> stock p' < qty
    \<longrightarrow> updateStock ls d pid qty ''sale''
           = (Inl (AppErr (validation ''Insufficient stock for sale transaction'')), d)
       \<and> (tid \<noteq> [] \<and> tid \<notin> set (map transactionId (transactions d))
          \<longrightarrow> (\<exists>e d'. createTransaction ls d (Some tid) (Some pid) (Some qty) (Some ''sale'') cid
                         = (Inl (AppErr e), d')
                 \<and> products d' = products d \<and> transactions d' = transactions d
                 \<and> e = (if fst (insert_transaction d
                                   (legacy_values tid pid qty ''sale'' cid (price p')
                                      (price p' * of_int qty))) = None
                        then internal (''Failed to create transaction: ''
                                         @ ''statement rejected by the store'')
                        else validation ''Insufficient stock for sale transaction''))))"
proof (intro conjI impI)
  assume "insertTransactionSchema_parse body = Some v \<and> insertTransaction.type v = ''sale''
      \<and> select_product d (insertTransaction.productId v) = Some p
      \<and> stock p < insertTransaction.quantity v"
  then show "post_transaction d body = (Failure 400 ''INSUFFICIENT_STOCK'', d)"
    by (simp add: post_transaction_def)
next
  assume "pid \<noteq> [] \<and> 0 < qty \<and> select_product d pid = Some p' \<and> stock p' < qty"
  then show "updateStock ls d pid qty ''sale''
           = (Inl (AppErr (validation ''Insufficient stock for sale transaction'')), d)"
    by (simp add: updateStock_insufficient)
next
  assume a: "pid \<noteq> [] \<and> 0 < qty \<and> select_product d pid = Some p' \<and> stock p' < qty"
    and b: "tid \<noteq> [] \<and> tid \<notin> set (map transactionId (transactions d))"
  from a b have "createTransaction ls d (Some tid) (Some pid) (Some qty) (Some ''sale'') cid
           = (Inl (AppErr
                (if fst (insert_transaction d
                          (legacy_values tid pid qty ''sale'' cid (price p')
                             (price p' * of_int qty))) = None
                 then internal (''Failed to create transaction: ''
                                  @ ''statement rejected by the store'')
                 else validation ''Insufficient stock for sale transaction'')),
              d\<lparr>nextId := Suc (nextId d)\<rparr>)"
    by (intro createTransaction_insufficient) simp_all
  then show "\<exists>e d'. createTransaction ls d (Some tid) (Some pid) (Some qty) (Some ''sale'') cid
                         = (Inl (AppErr e), d')
                 \<and> products d' = products d \<and> transactions d' = transactions d
                 \<and> e = (if fst (insert_transaction d
                                   (legacy_values tid pid qty ''sale'' cid (price p')
                                      (price p' * of_int qty))) = None
                        then internal (''Failed to create transaction: ''
                                         @ ''statement rejected by the store'')
                        else validation ''Insufficient stock for sale transaction'')"
    by simp
qed

theorem sale_exceeding_stock_rejected_witness:
  "post_transaction (shop_db 10) (request_body ''TXN-001'' 12 ''sale'' (Some ''CUST-001''))
     = (Failure 400 ''INSUFFICIENT_STOCK'', shop_db 10)
   \<and> updateStock [console_listener] (shop_db 10) ''PROD-001'' 12 ''sale''
     = (Inl (AppErr (validation ''Insufficient stock for sale transaction'')), shop_db 10)
   \<and> (\<exists>d'. createTransaction [console_listener] (shop_db 10) (Some ''TXN-001'')
              (Some ''PROD-001'') (Some 12) (Some ''sale'') None
            = (Inl (AppErr (validation ''Insufficient stock for sale transaction'')), d')
          \<and> products d' = products (shop_db 10)
          \<and> transactions d' = transactions (shop_db 10))"
proof -
  have parse: "insertTransactionSchema_parse
        (request_body ''TXN-001'' 12 ''sale'' (Some ''CUST-001''))
      = Some (sale_data\<lparr>insertTransaction.quantity := 12\<rparr>)"
    by (simp add: insertTransactionSchema_parse_def request_body_def sale_data_def)
  have sel: "select_product (shop_db 10) ''PROD-001'' = Some (widget 10)"
    by (simp add: select_product_def shop_db_def widget_def)
  have fresh: "transactions (shop_db 10) = []" by (simp add: shop_db_def)
  have ins: "fst (insert_transaction (shop_db 10)
       (legacy_values ''TXN-001'' ''PROD-001'' 12 ''sale'' None (price (widget 10))
          (price (widget 10) * of_int 12))) \<noteq> None"
    by (simp add: legacy_values_def example_defs store_defs Let_def)
  from sale_exceeding_stock_rejected
    [of "request_body ''TXN-001'' 12 ''sale'' (Some ''CUST-001'')"
        "sale_data\<lparr>insertTransaction.quantity := 12\<rparr>" "shop_db 10" "widget 10"
        "''PROD-001''" 12 "widget 10" "[console_listener]" "''TXN-001''" None]
    parse sel ins
  show ?thesis
    by (auto simp: sale_data_def widget_def fresh)
qed

text \<open>Claim C5 as stated fails on the legacy implementation: a sale of 12 on a stock of
  10 fails with a Validation error, not with InsufficientStock.\<close>

theorem legacy_insufficient_stock_is_validation_counterexample:
  "createTransaction [console_listener] (shop_db 10) (Some ''TXN-001'') (Some ''PROD-001'')
     (Some 12) (Some ''sale'') None
   = (Inl (AppErr \<lparr>message = ''Insufficient stock for sale transaction'', statusCode = 400,
                    code = ''VALIDATION_ERROR''\<rparr>),
      (shop_db 10)\<lparr>nextId := 2\<rparr>)"
  by (simp add: legacy_defs example_defs store_defs Let_def)








section \<open>Properties of the primary server's update\<close>

lemma find_set_stock:
  "find (\<lambda>q. product.productId q = pid)
     (map (\<lambda>q. if product.productId q = pid then q\<lparr>stock := n\<rparr> else q) ps)
   = map_option (\<lambda>q. q\<lparr>stock := n\<rparr>) (find (\<lambda>q. product.productId q = pid) ps)"
  by (induction ps) auto







section \<open>Create followed by delete\<close>

lemma find_fresh_row:
  assumes "list_all (\<lambda>t. row_id t < n) txs" and "row_id row = n"
  shows "find (\<lambda>t. row_id t = n) (txs @ [row]) = Some row"
  using assms by (induction txs) auto

lemma filter_fresh_row:
  assumes "list_all (\<lambda>t. row_id t < n) txs" and "row_id row = n"
  shows "filter (\<lambda>t. row_id t \<noteq> n) (txs @ [row]) = txs"
  using assms by (induction txs) auto

lemma set_stock_twice:
  "map (\<lambda>q. if product.productId q = pid then q\<lparr>stock := m\<rparr> else q)
     (map (\<lambda>q. if product.productId q = pid then q\<lparr>stock := n\<rparr> else q) ps)
   = map (\<lambda>q. if product.productId q = pid then q\<lparr>stock := m\<rparr> else q) ps"
  by (induction ps) auto

lemma set_stock_same:
  assumes "distinct (map product.productId ps)"
      and "find (\<lambda>q. product.productId q = pid) ps = Some p"
  shows "map (\<lambda>q. if product.productId q = pid then q\<lparr>stock := stock p\<rparr> else q) ps = ps"
  using assms
proof (induction ps)
  case Nil
  then show ?case by simp
next
  case (Cons a ps)
  show ?case
  proof (cases "product.productId a = pid")
    case True
    with Cons.prems have "a = p" by simp
    moreover from True Cons.prems have "pid \<notin> set (map product.productId ps)" by auto
    then have "map (\<lambda>q. if product.productId q = pid then q\<lparr>stock := stock p\<rparr> else q) ps = ps"
      by (induction ps) auto
    ultimately show ?thesis using True by simp
  next
    case False
    with Cons show ?thesis by simp
  qed
qed

text \<open>
  Claim C3. In a store that satisfies the schema's unique constraints, when a create
  succeeds and the delete of the row it created succeeds right after, the product table
  is what it was before the create (every stock has its earlier value), and so is the
  transaction table.
\<close>

theorem create_then_delete_restores_stock:
  assumes inv: "store_invariant d"
      and create: "post_transaction d body = (Success s row, d1)"
      and delete: "delete_transaction d1 (row_id row) = (Success s' (), d2)"
  shows "products d2 = products d \<and> transactions d2 = transactions d"
proof -
  show ?thesis
  proof (rule post_transaction_success[OF create])
  fix v and p :: product
  assume
    p: "select_product d (insertTransaction.productId v) = Some p" and
    rid: "row_id row = nextId d" and
    cols: "productId row = insertTransaction.productId v"
      "quantity row = insertTransaction.quantity v"
      "type row = insertTransaction.type v" and
    d1: "d1 = d\<lparr>nextId := Suc (nextId d), transactions := transactions d @ [row],
             products := map (\<lambda>q. if product.productId q = insertTransaction.productId v
                 then q\<lparr>stock := stock p + (if insertTransaction.type v = ''purchase''
                      then insertTransaction.quantity v else - insertTransaction.quantity v)\<rparr>
                 else q) (products d)\<rparr>"
  let ?pid = "insertTransaction.productId v"
  let ?change = "if insertTransaction.type v = ''purchase''
                      then insertTransaction.quantity v else - insertTransaction.quantity v"
  from inv have dist: "distinct (map product.productId (products d))"
    and fresh: "list_all (\<lambda>t. row_id t < nextId d) (transactions d)"
    by (simp_all add: store_invariant_def)
  have sel_t: "select_transaction d1 (row_id row) = Some row"
    unfolding select_transaction_def rid using find_fresh_row[OF fresh rid] by (simp add: d1)
  have sel_p: "select_product d1 ?pid = Some (p\<lparr>stock := stock p + ?change\<rparr>)"
    using p unfolding select_product_def by (simp add: d1 find_set_stock)
  have "delete_transaction d1 (row_id row) =
      (if stock p < 0 then (Failure 400 ''INSUFFICIENT_STOCK'', d1)
       else (case update_product_stock (delete_transaction_row d1 (row_id row)) ?pid (stock p) of
               None \<Rightarrow> (Failure 400 ''TRANSACTION_DELETE_ERROR'',
                          delete_transaction_row d1 (row_id row))
             | Some d3 \<Rightarrow> (Success 200 (), d3)))"
    unfolding delete_transaction_def sel_t by (simp add: cols sel_p Let_def)
  with delete have d2: "d2 = (delete_transaction_row d1 (row_id row))
      \<lparr>products := map (\<lambda>q. if product.productId q = ?pid then q\<lparr>stock := stock p\<rparr> else q)
          (products (delete_transaction_row d1 (row_id row)))\<rparr>"
    by (auto simp: update_product_stock_def split: if_splits)
  from p have fnd: "find (\<lambda>q. product.productId q = ?pid) (products d) = Some p"
    by (simp add: select_product_def)
  have "products d2 =
      map (\<lambda>q. if product.productId q = ?pid then q\<lparr>stock := stock p\<rparr> else q)
        (map (\<lambda>q. if product.productId q = ?pid then q\<lparr>stock := stock p + ?change\<rparr> else q)
           (products d))"
    by (simp add: d2 delete_transaction_row_def d1 del: map_map)
  then have "products d2 = products d"
    by (simp only: set_stock_twice set_stock_same[OF dist fnd])
  moreover have "transactions d2 = transactions d"
    using filter_fresh_row[OF fresh rid]
    by (simp add: d2 delete_transaction_row_def d1 rid del: filter_append)
  ultimately show ?thesis by simp
qed
qed

lemma delete_sold:
  "delete_transaction sold_db (row_id sale_row) = (Success 200 (), (shop_db 10)\<lparr>nextId := 2\<rparr>)"
  by (simp add: handler_defs example_defs store_defs)

theorem create_then_delete_restores_stock_witness:
  "store_invariant (shop_db 10)
   \<and> post_transaction (shop_db 10) sale_body = (Success 201 sale_row, sold_db)
   \<and> map stock (products sold_db) = [4]
   \<and> delete_transaction sold_db (row_id sale_row)
       = (Success 200 (), (shop_db 10)\<lparr>nextId := 2\<rparr>)
   \<and> products ((shop_db 10)\<lparr>nextId := 2\<rparr>) = products (shop_db 10)
   \<and> map stock (products (shop_db 10)) = [10]"
proof -
  have inv: "store_invariant (shop_db 10)"
    by (simp add: store_invariant_def shop_db_def widget_def)
  from create_then_delete_restores_stock [OF inv post_sale delete_sold]
  have "products ((shop_db 10)\<lparr>nextId := 2\<rparr>) = products (shop_db 10)" by blast
  moreover have "map stock (products sold_db) = [4]" "map stock (products (shop_db 10)) = [10]"
    by (simp_all add: sold_db_def shop_db_def widget_def)
  ultimately show ?thesis using inv post_sale delete_sold by blast
qed

section \<open>Partial failures, validation and duplicates\<close>

text \<open>
  Claim C1, evaluated where the primary server breaks it. The two writes of a create, an
  update and a delete are separate statements with no enclosing transaction, and the
  handler's \<open>catch\<close> undoes nothing: when the stock write is rejected (here the new stock
  exceeds the \<open>integer\<close> column), the transaction-row write stays. The create leaves the
  new row with the stock unchanged, the update leaves the rewritten row with the stock
  unchanged, and the delete leaves the row deleted with the stock unchanged.
\<close>

theorem primary_writes_not_atomic:
  "post_transaction (shop_db 2147483647) (request_body ''TXN-002'' 1 ''purchase'' None)
     = (Failure 400 ''TRANSACTION_CREATION_ERROR'',
        (shop_db 2147483647)
          \<lparr>transactions :=
             [\<lparr>row_id = 1, transactionId = ''TXN-002'', productId = ''PROD-001'',
               quantity = 1, type = ''purchase'', customerId = None, supplierId = None,
               unitPrice = 100, discountRate = 0, totalAmount = 100\<rparr>],
           nextId := 2\<rparr>)
   \<and> put_transaction full_db 1 (change_quantity 5)
     = (Failure 400 ''TRANSACTION_UPDATE_ERROR'',
        full_db\<lparr>transactions := [sale_row\<lparr>quantity := 5, totalAmount := 500\<rparr>]\<rparr>)
   \<and> delete_transaction full_db 1
     = (Failure 400 ''TRANSACTION_DELETE_ERROR'', full_db\<lparr>transactions := []\<rparr>)"
proof (intro conjI)
  show "post_transaction (shop_db 2147483647) (request_body ''TXN-002'' 1 ''purchase'' None)
     = (Failure 400 ''TRANSACTION_CREATION_ERROR'',
        (shop_db 2147483647)
          \<lparr>transactions :=
             [\<lparr>row_id = 1, transactionId = ''TXN-002'', productId = ''PROD-001'',
               quantity = 1, type = ''purchase'', customerId = None, supplierId = None,
               unitPrice = 100, discountRate = 0, totalAmount = 100\<rparr>],
           nextId := 2\<rparr>)"
    by (simp add: handler_defs example_defs store_defs)
  show "put_transaction full_db 1 (change_quantity 5)
     = (Failure 400 ''TRANSACTION_UPDATE_ERROR'',
        full_db\<lparr>transactions := [sale_row\<lparr>quantity := 5, totalAmount := 500\<rparr>]\<rparr>)"
    by (simp add: handler_defs example_defs store_defs)
  show "delete_transaction full_db 1
     = (Failure 400 ''TRANSACTION_DELETE_ERROR'', full_db\<lparr>transactions := []\<rparr>)"
    by (simp add: handler_defs example_defs store_defs)
qed

text \<open>The legacy \<open>createTransaction\<close> does roll back: whenever it fails, the two
  tables are what they were before the call.\<close>

lemma createTransaction_rollback:
  assumes "createTransaction ls d tid_arg pid_arg qty_arg type_arg cid_arg = (Inl err, d')"
  shows "products d' = products d \<and> transactions d' = transactions d"
  using assms unfolding createTransaction_def Let_def
  by (auto split: option.splits if_splits prod.splits sum.splits)

text \<open>
  Claim C2, evaluated where the primary server breaks it. The create checks the stock
  only for \<open>type = "sale"\<close> and never checks the sign of the quantity: a purchase of
  \<open>-15\<close> on a stock of 10 is answered 201 and leaves the stock at \<open>-5\<close>.
\<close>

theorem create_drives_stock_negative:
  "list_all (\<lambda>p. 0 \<le> stock p) (products (shop_db 10))
   \<and> post_transaction (shop_db 10) (request_body ''TXN-003'' (- 15) ''purchase'' None)
     = (Success 201
          \<lparr>row_id = 1, transactionId = ''TXN-003'', productId = ''PROD-001'',
           quantity = - 15, type = ''purchase'', customerId = None, supplierId = None,
           unitPrice = 100, discountRate = 0, totalAmount = - 1500\<rparr>,
        (shop_db (- 5))
          \<lparr>transactions :=
             [\<lparr>row_id = 1, transactionId = ''TXN-003'', productId = ''PROD-001'',
               quantity = - 15, type = ''purchase'', customerId = None, supplierId = None,
               unitPrice = 100, discountRate = 0, totalAmount = - 1500\<rparr>],
           nextId := 2\<rparr>)"
  by (simp add: handler_defs example_defs store_defs)

text \<open>Update and delete do keep the stocks non-negative, and so does a create whose
  quantity is positive and whose type is \<open>purchase\<close> or \<open>sale\<close>.\<close>

lemma set_stock_nonneg:
  "list_all (\<lambda>p. 0 \<le> stock p) ps \<Longrightarrow> 0 \<le> n \<Longrightarrow>
   list_all (\<lambda>p. 0 \<le> stock p)
     (map (\<lambda>q. if product.productId q = pid then q\<lparr>stock := n\<rparr> else q) ps)"
  by (induction ps) auto

lemma put_transaction_stock_nonneg:
  assumes "list_all (\<lambda>p. 0 \<le> stock p) (products d)"
  shows "list_all (\<lambda>p. 0 \<le> stock p) (products (snd (put_transaction d i u)))"
  using assms unfolding put_transaction_def update_transaction_def update_product_stock_def Let_def
  by (auto split: option.splits if_splits intro!: set_stock_nonneg)

lemma delete_transaction_stock_nonneg:
  assumes "list_all (\<lambda>p. 0 \<le> stock p) (products d)"
  shows "list_all (\<lambda>p. 0 \<le> stock p) (products (snd (delete_transaction d i)))"
  using assms unfolding delete_transaction_def delete_transaction_row_def
    update_product_stock_def Let_def
  by (auto split: option.splits if_splits intro!: set_stock_nonneg)

lemma post_transaction_stock_nonneg:
  assumes "list_all (\<lambda>p. 0 \<le> stock p) (products d)"
      and "insertTransactionSchema_parse body = Some v"
      and "0 < insertTransaction.quantity v"
      and "insertTransaction.type v = ''purchase'' \<or> insertTransaction.type v = ''sale''"
  shows "list_all (\<lambda>p. 0 \<le> stock p) (products (snd (post_transaction d body)))"
proof -
  have "0 \<le> stock p" if "select_product d pid = Some p" for p pid
    using that assms(1) find_Some_mem[of _ "products d" p]
    by (auto simp: select_product_def list_all_iff)
  then show ?thesis
    using assms unfolding post_transaction_def insert_transaction_def update_product_stock_def Let_def
    by (fastforce split: option.splits if_splits intro!: set_stock_nonneg)
qed

text \<open>
  Claim C7, evaluated where the primary server breaks it. The schema requires the fields
  but constrains neither the sign of \<open>quantity\<close> nor the value of \<open>type\<close>: a sale of
  quantity 0 is answered 201 and inserts a row, and a request of type \<open>refund\<close> with
  quantity 15 is answered 201, inserts a row and takes the stock from 10 to \<open>-5\<close>.
\<close>

theorem create_accepts_invalid_quantity_and_type:
  "post_transaction (shop_db 10) (request_body ''TXN-004'' 0 ''sale'' None)
     = (Success 201
          \<lparr>row_id = 1, transactionId = ''TXN-004'', productId = ''PROD-001'',
           quantity = 0, type = ''sale'', customerId = None, supplierId = None,
           unitPrice = 100, discountRate = 0, totalAmount = 0\<rparr>,
        (shop_db 10)
          \<lparr>transactions :=
             [\<lparr>row_id = 1, transactionId = ''TXN-004'', productId = ''PROD-001'',
               quantity = 0, type = ''sale'', customerId = None, supplierId = None,
               unitPrice = 100, discountRate = 0, totalAmount = 0\<rparr>],
           nextId := 2\<rparr>)
   \<and> post_transaction (shop_db 10) (request_body ''TXN-005'' 15 ''refund'' None)
     = (Success 201
          \<lparr>row_id = 1, transactionId = ''TXN-005'', productId = ''PROD-001'',
           quantity = 15, type = ''refund'', customerId = None, supplierId = None,
           unitPrice = 100, discountRate = 0, totalAmount = 1500\<rparr>,
        (shop_db (- 5))
          \<lparr>transactions :=
             [\<lparr>row_id = 1, transactionId = ''TXN-005'', productId = ''PROD-001'',
               quantity = 15, type = ''refund'', customerId = None, supplierId = None,
               unitPrice = 100, discountRate = 0, totalAmount = 1500\<rparr>],
           nextId := 2\<rparr>)"
  by (simp add: handler_defs example_defs store_defs)

text \<open>A missing required field is rejected by the primary server with no mutation, and
  the legacy \<open>createTransaction\<close> rejects all three kinds of invalid input.\<close>

lemma post_transaction_missing_field:
  assumes "body_productId body = None \<or> body_quantity body = None \<or> body_type body = None
           \<or> body_transactionId body = None"
  shows "post_transaction d body = (Failure 400 ''TRANSACTION_CREATION_ERROR'', d)"
  using assms unfolding post_transaction_def insertTransactionSchema_parse_def
  by (auto split: option.splits)

lemma createTransaction_validation:
  assumes "tid_arg = None \<or> pid_arg = None \<or> qty_arg = None \<or> type_arg = None
           \<or> (\<exists>q. qty_arg = Some q \<and> q \<le> 0)
           \<or> (\<exists>t. type_arg = Some t \<and> t \<noteq> ''purchase'' \<and> t \<noteq> ''sale'')"
  shows "\<exists>m. createTransaction ls d tid_arg pid_arg qty_arg type_arg cid_arg
               = (Inl (AppErr (validation m)), d)"
  using assms unfolding createTransaction_def
  by (auto split: option.splits)

text \<open>A create that reuses an existing transaction id never mutates a table of the
  primary server and is never answered 409; the legacy \<open>createTransaction\<close> answers it
  with \<open>AppError.conflict\<close>.\<close>

lemma post_transaction_duplicate:
  assumes "insertTransactionSchema_parse body = Some v"
      and "insertTransaction.transactionId v \<in> set (map transactionId (transactions d))"
  shows "\<exists>s c. fst (post_transaction d body) = Failure s c \<and> s \<noteq> 409"
    and "products (snd (post_transaction d body)) = products d"
    and "transactions (snd (post_transaction d body)) = transactions d"
proof -
  have rej: "insert_transaction d (create_values v a b c) = (None, d\<lparr>nextId := Suc (nextId d)\<rparr>)"
    for a b c
    using assms(2) by (simp add: insert_transaction_def row_accepted_def create_values_def Let_def)
  have post: "post_transaction d body =
      (case select_product d (insertTransaction.productId v) of
         None \<Rightarrow> (Failure 404 ''PRODUCT_NOT_FOUND'', d)
       | Some p \<Rightarrow>
           if insertTransaction.type v = ''sale'' \<and> stock p < insertTransaction.quantity v
           then (Failure 400 ''INSUFFICIENT_STOCK'', d)
           else (Failure 400 ''TRANSACTION_CREATION_ERROR'', d\<lparr>nextId := Suc (nextId d)\<rparr>))"
    unfolding post_transaction_def using assms(1) by (simp add: rej Let_def split: option.splits)
  show "\<exists>s c. fst (post_transaction d body) = Failure s c \<and> s \<noteq> 409"
    by (simp add: post split: option.splits)
  show "products (snd (post_transaction d body)) = products d"
    by (simp add: post split: option.splits)
  show "transactions (snd (post_transaction d body)) = transactions d"
    by (simp add: post split: option.splits)
qed

lemma createTransaction_conflict:
  assumes "tid \<noteq> []" and "pid \<noteq> []" and "0 < qty" and "ty = ''purchase'' \<or> ty = ''sale''"
      and "tid \<in> set (map transactionId (transactions d))"
  shows "createTransaction ls d (Some tid) (Some pid) (Some qty) (Some ty) cid
           = (Inl (AppErr (conflict (''Transaction with ID '' @ tid @ '' already exists''))), d)"
  using assms by (auto simp: createTransaction_def)

text \<open>
  Claim C6, evaluated where the primary server breaks it. It has no duplicate check: a
  create that reuses the id \<open>TXN-001\<close> runs into the unique constraint of the store and
  is answered 400 \<open>TRANSACTION_CREATION_ERROR\<close>, where the legacy \<open>createTransaction\<close>
  fails with the Conflict error (409) on the same request.
\<close>

theorem duplicate_id_answered_400:
  "post_transaction sold_db duplicate_body
     = (Failure 400 ''TRANSACTION_CREATION_ERROR'', sold_db\<lparr>nextId := 3\<rparr>)
   \<and> createTransaction [console_listener] sold_db (Some ''TXN-001'') (Some ''PROD-001'')
        (Some 1) (Some ''purchase'') None
     = (Inl (AppErr \<lparr>message = ''Transaction with ID TXN-001 already exists'',
                      statusCode = 409, code = ''CONFLICT''\<rparr>), sold_db)"
proof
  show "post_transaction sold_db duplicate_body
     = (Failure 400 ''TRANSACTION_CREATION_ERROR'', sold_db\<lparr>nextId := 3\<rparr>)"
    by (simp add: handler_defs example_defs store_defs)
  show "createTransaction [console_listener] sold_db (Some ''TXN-001'') (Some ''PROD-001'')
        (Some 1) (Some ''purchase'') None
     = (Inl (AppErr \<lparr>message = ''Transaction with ID TXN-001 already exists'',
                      statusCode = 409, code = ''CONFLICT''\<rparr>), sold_db)"
    by (simp add: legacy_defs example_defs store_defs Let_def)
qed

section \<open>Low-stock notification (legacy)\<close>

text \<open>Claim C8 as stated fails: with a listener that throws, a sale that brings the stock
  to the threshold or below makes \<open>updateStock\<close> fail with an Internal error.\<close>

theorem listener_error_propagates_counterexample:
  "fst (updateStock [throwing_listener] (shop_db 10) ''PROD-001'' 6 ''sale'')
     = Inl (AppErr \<lparr>message = ''Failed to update stock: notification failed'',
                     statusCode = 500, code = ''INTERNAL_ERROR''\<rparr>)"
  by (simp add: legacy_defs example_defs store_defs Let_def)

lemma rethrow_rethrow: "rethrow a (rethrow b e) = rethrow b e"
  by (cases e) (simp_all add: rethrow_def)

lemma updateStock_emits:
  assumes "pid \<noteq> []" and "ty = ''purchase'' \<or> ty = ''sale''" and "0 < qty"
      and "select_product d pid = Some p"
      and "ty = ''purchase'' \<or> 0 \<le> stock p - qty"
      and "int4 (if ty = ''purchase'' then stock p + qty else stock p - qty)"
      and "(if ty = ''purchase'' then stock p + qty else stock p - qty) \<le> lowStockThreshold p"
  shows "updateStock listeners d pid qty ty =
           (let n = (if ty = ''purchase'' then stock p + qty else stock p - qty);
                d' = d\<lparr>products :=
                        map (\<lambda>q. if product.productId q = pid then q\<lparr>stock := n\<rparr> else q)
                          (products d)\<rparr>
            in case emit listeners
                      \<lparr>event_productId = pid, event_name = name p, currentStock = n,
                       event_threshold = lowStockThreshold p\<rparr> of
                 Some e \<Rightarrow> (Inl (rethrow ''Failed to update stock: '' e), d')
               | None \<Rightarrow> (Inr (select_product d' pid), d'))"
proof -
  from assms(2) consider "ty = ''purchase''" | "ty = ''sale''" by blast
  then show ?thesis
  proof cases
    case 1
    with assms show ?thesis
      unfolding updateStock_def update_product_stock_def Let_def
      by (simp split: option.splits)
  next
    case 2
    with assms show ?thesis
      unfolding updateStock_def update_product_stock_def Let_def
      by (simp split: option.splits)
  qed
qed

lemma createTransaction_listener_throws:
  assumes "tid \<noteq> []" and "pid \<noteq> []" and "ty = ''purchase'' \<or> ty = ''sale''" and "0 < qty"
      and "tid \<notin> set (map transactionId (transactions d))"
      and "select_product d pid = Some p"
      and "fst (insert_transaction d
                  (legacy_values tid pid qty ty cid (price p) (price p * of_int qty))) \<noteq> None"
      and "ty = ''purchase'' \<or> 0 \<le> stock p - qty"
      and "int4 (if ty = ''purchase'' then stock p + qty else stock p - qty)"
      and "(if ty = ''purchase'' then stock p + qty else stock p - qty) \<le> lowStockThreshold p"
      and "emit listeners
             \<lparr>event_productId = pid, event_name = name p,
              currentStock = (if ty = ''purchase'' then stock p + qty else stock p - qty),
              event_threshold = lowStockThreshold p\<rparr> = Some e"
  shows "createTransaction listeners d (Some tid) (Some pid) (Some qty) (Some ty) cid
           = (Inl (rethrow ''Failed to update stock: '' e), d\<lparr>nextId := Suc (nextId d)\<rparr>)"
proof -
  let ?vals = "legacy_values tid pid qty ty cid (price p) (price p * of_int qty)"
  from assms(7) obtain row d1 where ins: "insert_transaction d ?vals = (Some row, d1)"
    by (cases "insert_transaction d ?vals") auto
  then have d1: "products d1 = products d" "nextId d1 = Suc (nextId d)"
    by (auto simp: insert_transaction_def Let_def split: if_splits)
  from d1(1) assms(6) have sel: "select_product d1 pid = Some p"
    by (simp add: select_product_def)
  have us: "updateStock listeners d1 pid qty ty =
      (Inl (rethrow ''Failed to update stock: '' e),
       d1\<lparr>products :=
            map (\<lambda>q. if product.productId q = pid
                     then q\<lparr>stock := (if ty = ''purchase'' then stock p + qty
                                        else stock p - qty)\<rparr> else q)
              (products d1)\<rparr>)"
    using updateStock_emits[OF assms(2,3,4) sel assms(8,9,10), of listeners] assms(11)
    by (simp add: Let_def)
  from assms(1-6) ins us d1(2) show ?thesis
    unfolding createTransaction_def
    by (auto simp: Let_def rethrow_rethrow)
qed

text \<open>
  Claim C8, as the code has it. When \<open>updateStock\<close> has written a stock at or below the
  product's threshold, it dispatches the event inside its \<open>try\<close>: if a listener throws,
  the call fails with that error (an \<open>AppError\<close> as it is, anything else as an Internal
  error "Failed to update stock: ...") while the stock write stays in the store; if no
  listener throws, it returns the updated product. Inside \<open>createTransaction\<close> the
  same failure reaches the caller after \<open>ROLLBACK\<close>: neither the row nor the stock write
  is kept.
\<close>

theorem updateStock_listener_outcome:
  assumes "pid \<noteq> []" and "ty = ''purchase'' \<or> ty = ''sale''" and "0 < qty"
      and "select_product d pid = Some p"
      and "n = (if ty = ''purchase'' then stock p + qty else stock p - qty)"
      and "ty = ''purchase'' \<or> 0 \<le> n" and "int4 n"
      and "n \<le> lowStockThreshold p"
      and "event = \<lparr>event_productId = pid, event_name = name p, currentStock = n,
                     event_threshold = lowStockThreshold p\<rparr>"
      and "d' = d\<lparr>products :=
                   map (\<lambda>q. if product.productId q = pid then q\<lparr>stock := n\<rparr> else q)
                     (products d)\<rparr>"
  shows "updateStock listeners d pid qty ty =
           (case emit listeners event of
              Some e \<Rightarrow> (Inl (rethrow ''Failed to update stock: '' e), d')
            | None \<Rightarrow> (Inr (select_product d' pid), d'))
       \<and> (tid \<noteq> [] \<and> tid \<notin> set (map transactionId (transactions d))
            \<and> fst (insert_transaction d
                      (legacy_values tid pid qty ty cid (price p) (price p * of_int qty)))
                 \<noteq> None
            \<and> emit listeners event = Some e
          \<longrightarrow> createTransaction listeners d (Some tid) (Some pid) (Some qty) (Some ty) cid
               = (Inl (rethrow ''Failed to update stock: '' e),
                  d\<lparr>nextId := Suc (nextId d)\<rparr>))"
proof
  have a6: "ty = ''purchase'' \<or> 0 \<le> stock p - qty"
    using assms(6) unfolding assms(5) by (auto split: if_splits)
  note a7 = assms(7)[unfolded assms(5)] and a8 = assms(8)[unfolded assms(5)]
  show "updateStock listeners d pid qty ty =
           (case emit listeners event of
              Some e \<Rightarrow> (Inl (rethrow ''Failed to update stock: '' e), d')
            | None \<Rightarrow> (Inr (select_product d' pid), d'))"
    unfolding assms(10) assms(9) assms(5)
    using updateStock_emits[OF assms(1,2,3,4) a6 a7 a8, of listeners]
    by (simp add: Let_def)
  show "tid \<noteq> [] \<and> tid \<notin> set (map transactionId (transactions d))
            \<and> fst (insert_transaction d
                      (legacy_values tid pid qty ty cid (price p) (price p * of_int qty)))
                 \<noteq> None
            \<and> emit listeners event = Some e
          \<longrightarrow> createTransaction listeners d (Some tid) (Some pid) (Some qty) (Some ty) cid
               = (Inl (rethrow ''Failed to update stock: '' e),
                  d\<lparr>nextId := Suc (nextId d)\<rparr>)"
  proof
    assume h: "tid \<noteq> [] \<and> tid \<notin> set (map transactionId (transactions d))
            \<and> fst (insert_transaction d
                      (legacy_values tid pid qty ty cid (price p) (price p * of_int qty)))
                 \<noteq> None
            \<and> emit listeners event = Some e"
    then have em: "emit listeners
             \<lparr>event_productId = pid, event_name = name p,
              currentStock = (if ty = ''purchase'' then stock p + qty else stock p - qty),
              event_threshold = lowStockThreshold p\<rparr> = Some e"
      unfolding assms(9) assms(5) by simp
    from h show "createTransaction listeners d (Some tid) (Some pid) (Some qty) (Some ty) cid
               = (Inl (rethrow ''Failed to update stock: '' e),
                  d\<lparr>nextId := Suc (nextId d)\<rparr>)"
      by (intro createTransaction_listener_throws[OF _ assms(1,2,3) _ assms(4) _ a6 a7 a8 em])
         simp_all
  qed
qed

theorem updateStock_listener_outcome_witness:
  "updateStock [throwing_listener] (shop_db 10) ''PROD-001'' 6 ''sale''
     = (Inl (AppErr (internal ''Failed to update stock: notification failed'')), shop_db 4)
   \<and> updateStock [console_listener] (shop_db 10) ''PROD-001'' 6 ''sale''
     = (Inr (Some (widget 4)), shop_db 4)
   \<and> createTransaction [throwing_listener] (shop_db 10) (Some ''TXN-001'') (Some ''PROD-001'')
        (Some 6) (Some ''sale'') None
     = (Inl (AppErr (internal ''Failed to update stock: notification failed'')),
        (shop_db 10)\<lparr>nextId := 2\<rparr>)"
proof -
  have sel: "select_product (shop_db 10) ''PROD-001'' = Some (widget 10)"
    by (simp add: example_defs store_defs)
  have d': "shop_db 4 = (shop_db 10)\<lparr>products :=
      map (\<lambda>q. if product.productId q = ''PROD-001'' then q\<lparr>stock := 4\<rparr> else q)
        (products (shop_db 10))\<rparr>"
    by (simp add: example_defs)
  have sel4: "select_product (shop_db 4) ''PROD-001'' = Some (widget 4)"
    by (simp add: example_defs store_defs)
  have ins: "fst (insert_transaction (shop_db 10)
       (legacy_values ''TXN-001'' ''PROD-001'' 6 ''sale'' None (price (widget 10))
          (price (widget 10) * of_int 6))) \<noteq> None"
    by (simp add: legacy_values_def example_defs store_defs Let_def)
  have fresh: "transactions (shop_db 10) = []" by (simp add: shop_db_def)
  have n: "(4::int) = (if ''sale'' = ''purchase'' then stock (widget 10) + 6
                       else stock (widget 10) - 6)"
    by (simp add: widget_def)
  have lo: "(4::int) \<le> lowStockThreshold (widget 10)" by (simp add: widget_def)
  have i4: "int4 4" by (simp add: int4_def)
  note T = updateStock_listener_outcome [where d = "shop_db 10" and pid = "''PROD-001''"
        and qty = 6 and ty = "''sale''" and p = "widget 10" and n = 4 and d' = "shop_db 4"
        and tid = "''TXN-001''" and cid = None
        and e = "OtherError ''notification failed''", OF _ _ _ sel n _ i4 lo refl d']
  have a: "updateStock [throwing_listener] (shop_db 10) ''PROD-001'' 6 ''sale''
     = (Inl (AppErr (internal ''Failed to update stock: notification failed'')), shop_db 4)"
    using T [where listeners = "[throwing_listener]"]
    by (simp add: throwing_listener_def rethrow_def)
  have b: "updateStock [console_listener] (shop_db 10) ''PROD-001'' 6 ''sale''
     = (Inr (Some (widget 4)), shop_db 4)"
    using T [where listeners = "[console_listener]"]
    by (simp add: console_listener_def sel4)
  have c: "createTransaction [throwing_listener] (shop_db 10) (Some ''TXN-001'')
        (Some ''PROD-001'') (Some 6) (Some ''sale'') None
     = (Inl (AppErr (internal ''Failed to update stock: notification failed'')),
        (shop_db 10)\<lparr>nextId := 2\<rparr>)"
    using T [where listeners = "[throwing_listener]"] ins fresh
    by (simp add: throwing_listener_def rethrow_def) (simp add: shop_db_def)
  from a b c show ?thesis by simp
qed

end
